theory Spec2Isabelle
  imports Main "HOL-Library.Sublist"
begin

section \<open>Contact-point creation task of the alerts app\<close>

text \<open>
  A shallow embedding of
  \<^verbatim>\<open>engine/apps/alerts/tasks/create_contact_points_for_datasource.py\<close>:
  the cache-key helper, the scheduling task and the worker task with its loop over the
  datasource list.

  The task talks to four collaborators: the Django cache, the \<^verbatim>\<open>AlertReceiveChannel\<close>
  table, the Grafana alerting sync manager (through a \<^verbatim>\<open>GrafanaAPIClient\<close>) and the Celery
  queue. Their code is not part of the task, so they are parameters of the model: a record
  of operations over an abstract world \<open>'w\<close>, each returning its result together with
  the world it leaves behind. Every call the task makes to one of them is appended to a
  call log, which is what the statements about "no call" and "exactly one call" read.
  A collaborator is taken to return; an exception raised inside one leaves the task body
  and is the business of the queue's retry options, not of the body modelled here.
\<close>

subsection \<open>Python values\<close>

text \<open>
  The datasource entries and the response descriptor are JSON-like dictionaries. The
  values the task inspects are scalars: \<^verbatim>\<open>None\<close>, booleans, integers and strings.
\<close>

datatype pyval = PyNone | PyBool bool | PyInt int | PyStr string

text \<open>Truth value testing of Python, as used by \<^verbatim>\<open>or\<close> and \<^verbatim>\<open>not\<close>.\<close>

fun truthy :: "pyval \<Rightarrow> bool" where
  "truthy PyNone = False"
| "truthy (PyBool b) = b"
| "truthy (PyInt i) = (i \<noteq> 0)"
| "truthy (PyStr s) = (s \<noteq> [])"

text \<open>\<^verbatim>\<open>a or b\<close> evaluates to \<open>a\<close> when \<open>a\<close> is truthy and to \<open>b\<close> otherwise.\<close>

definition py_or :: "pyval \<Rightarrow> pyval \<Rightarrow> pyval" where
  "py_or a b = (if truthy a then a else b)"

type_synonym pydict = "string \<rightharpoonup> pyval"

text \<open>\<^verbatim>\<open>d.get(k)\<close>: the value stored under \<open>k\<close>, or \<^verbatim>\<open>None\<close> when the key is missing.\<close>

definition dict_get :: "pydict \<Rightarrow> string \<Rightarrow> pyval" where
  "dict_get d k = (case d k of None \<Rightarrow> PyNone | Some v \<Rightarrow> v)"

type_synonym datasource = pydict
type_synonym response_info = pydict
type_synonym task_id = string

text \<open>The two status codes of \<^verbatim>\<open>rest_framework.status\<close> the task compares with.\<close>

definition HTTP_404_NOT_FOUND :: int where
  "HTTP_404_NOT_FOUND = 404"

definition HTTP_400_BAD_REQUEST :: int where
  "HTTP_400_BAD_REQUEST = 400"

subsection \<open>Decimal rendering of the integration id in the cache key\<close>

definition digit_char :: "nat \<Rightarrow> char" where
  "digit_char n = ''0123456789'' ! n"

function str_nat :: "nat \<Rightarrow> string" where
  "str_nat n = (if n < 10 then [digit_char n] else str_nat (n div 10) @ [digit_char (n mod 10)])"
  by pat_completeness auto
termination
  by (relation "measure (\<lambda>n. n)") auto

declare str_nat.simps [simp del]

definition str_int :: "int \<Rightarrow> string" where
  "str_int i = (if i < 0 then CHR ''-'' # str_nat (nat (- i)) else str_nat (nat i))"

text \<open>
  \<^verbatim>\<open>
  def get_cache_key_create_contact_points_for_datasource(alert_receive_channel_id):
      CACHE_KEY_PREFIX = "create_contact_points_for_datasource"
      return f"{CACHE_KEY_PREFIX}_{alert_receive_channel_id}"
  \<close>
\<close>

definition CACHE_KEY_PREFIX :: string where
  "CACHE_KEY_PREFIX = ''create_contact_points_for_datasource''"

definition get_cache_key_create_contact_points_for_datasource :: "int \<Rightarrow> string" where
  "get_cache_key_create_contact_points_for_datasource alert_receive_channel_id =
     CACHE_KEY_PREFIX @ ''_'' @ str_int alert_receive_channel_id"

subsection \<open>The integration record and the collaborators\<close>

text \<open>
  The fields of \<^verbatim>\<open>AlertReceiveChannel\<close> the task reads or writes: the primary key, the
  organization's Grafana URL and API token (handed to the client), and the completion flag.
\<close>

record alert_receive_channel =
  pk :: int
  grafana_url :: string
  api_token :: string
  is_finished_alerting_setup :: bool

text \<open>
  The client method handed to the version-aware dispatcher
  \<^verbatim>\<open>alerting_config_with_respect_to_grafana_version\<close>.
\<close>

datatype client_method = Get_alerting_config | Get_alertmanager_status_with_config

text \<open>One entry of the call log per call to a collaborator, with the arguments of the call.\<close>

datatype event =
    Cache_get string
  | Cache_set string task_id nat
  | Objects_filter_first int
  | Alerting_config alert_receive_channel bool pyval pyval client_method
  | Create_contact_point alert_receive_channel datasource
  | Apply_async int "datasource list" nat
  | Save alert_receive_channel "string list"

record ('w, 'cfg, 'cp) env =
  cache_get :: "string \<Rightarrow> 'w \<Rightarrow> task_id option \<times> 'w"
  cache_set :: "string \<Rightarrow> task_id \<Rightarrow> nat \<Rightarrow> 'w \<Rightarrow> 'w"
  objects_filter_first :: "int \<Rightarrow> 'w \<Rightarrow> alert_receive_channel option \<times> 'w"
  alerting_config_with_respect_to_grafana_version ::
    "alert_receive_channel \<Rightarrow> bool \<Rightarrow> pyval \<Rightarrow> pyval \<Rightarrow> client_method \<Rightarrow> 'w
       \<Rightarrow> ('cfg option \<times> response_info) \<times> 'w"
  create_contact_point :: "alert_receive_channel \<Rightarrow> datasource \<Rightarrow> 'w \<Rightarrow> 'cp option \<times> 'w"
  apply_async :: "int \<Rightarrow> datasource list \<Rightarrow> nat \<Rightarrow> 'w \<Rightarrow> task_id \<times> 'w"
  save :: "alert_receive_channel \<Rightarrow> string list \<Rightarrow> 'w \<Rightarrow> 'w"

record 'w state =
  world :: 'w
  calls :: "event list"

text \<open>Each call changes the world as the collaborator says and is logged.\<close>

definition do_cache_get ::
  "('w, 'cfg, 'cp) env \<Rightarrow> string \<Rightarrow> 'w state \<Rightarrow> task_id option \<times> 'w state" where
  "do_cache_get e k s =
     (let (r, w) = cache_get e k (world s)
      in (r, \<lparr>world = w, calls = calls s @ [Cache_get k]\<rparr>))"

definition do_cache_set ::
  "('w, 'cfg, 'cp) env \<Rightarrow> string \<Rightarrow> task_id \<Rightarrow> nat \<Rightarrow> 'w state \<Rightarrow> 'w state" where
  "do_cache_set e k v timeout s =
     \<lparr>world = cache_set e k v timeout (world s), calls = calls s @ [Cache_set k v timeout]\<rparr>"

definition do_objects_filter_first ::
  "('w, 'cfg, 'cp) env \<Rightarrow> int \<Rightarrow> 'w state \<Rightarrow> alert_receive_channel option \<times> 'w state" where
  "do_objects_filter_first e i s =
     (let (r, w) = objects_filter_first e i (world s)
      in (r, \<lparr>world = w, calls = calls s @ [Objects_filter_first i]\<rparr>))"

definition do_alerting_config ::
  "('w, 'cfg, 'cp) env \<Rightarrow> alert_receive_channel \<Rightarrow> bool \<Rightarrow> pyval \<Rightarrow> pyval \<Rightarrow> client_method
     \<Rightarrow> 'w state \<Rightarrow> ('cfg option \<times> response_info) \<times> 'w state" where
  "do_alerting_config e arc g i u m s =
     (let (r, w) = alerting_config_with_respect_to_grafana_version e arc g i u m (world s)
      in (r, \<lparr>world = w, calls = calls s @ [Alerting_config arc g i u m]\<rparr>))"

definition do_create_contact_point ::
  "('w, 'cfg, 'cp) env \<Rightarrow> alert_receive_channel \<Rightarrow> datasource \<Rightarrow> 'w state
     \<Rightarrow> 'cp option \<times> 'w state" where
  "do_create_contact_point e arc d s =
     (let (r, w) = create_contact_point e arc d (world s)
      in (r, \<lparr>world = w, calls = calls s @ [Create_contact_point arc d]\<rparr>))"

definition do_apply_async ::
  "('w, 'cfg, 'cp) env \<Rightarrow> int \<Rightarrow> datasource list \<Rightarrow> nat \<Rightarrow> 'w state \<Rightarrow> task_id \<times> 'w state" where
  "do_apply_async e i ds countdown s =
     (let (r, w) = apply_async e i ds countdown (world s)
      in (r, \<lparr>world = w, calls = calls s @ [Apply_async i ds countdown]\<rparr>))"

definition do_save ::
  "('w, 'cfg, 'cp) env \<Rightarrow> alert_receive_channel \<Rightarrow> string list \<Rightarrow> 'w state \<Rightarrow> 'w state" where
  "do_save e arc update_fields s =
     \<lparr>world = save e arc update_fields (world s), calls = calls s @ [Save arc update_fields]\<rparr>"

subsection \<open>The scheduling task\<close>

text \<open>
  \<^verbatim>\<open>
  def schedule_create_contact_points_for_datasource(alert_receive_channel_id, datasource_list):
      CACHE_LIFETIME = 600
      START_TASK_DELAY = 3
      task = create_contact_points_for_datasource.apply_async(
          args=[alert_receive_channel_id, datasource_list], countdown=START_TASK_DELAY
      )
      cache_key = get_cache_key_create_contact_points_for_datasource(alert_receive_channel_id)
      cache.set(cache_key, task.id, timeout=CACHE_LIFETIME)
  \<close>
\<close>

definition CACHE_LIFETIME :: nat where
  "CACHE_LIFETIME = 600"

definition START_TASK_DELAY :: nat where
  "START_TASK_DELAY = 3"

definition schedule_create_contact_points_for_datasource ::
  "('w, 'cfg, 'cp) env \<Rightarrow> int \<Rightarrow> datasource list \<Rightarrow> 'w state \<Rightarrow> 'w state" where
  "schedule_create_contact_points_for_datasource e alert_receive_channel_id datasource_list s =
     (let (task, s1) = do_apply_async e alert_receive_channel_id datasource_list START_TASK_DELAY s;
          cache_key = get_cache_key_create_contact_points_for_datasource alert_receive_channel_id
      in do_cache_set e cache_key task CACHE_LIFETIME s1)"

subsection \<open>The worker task\<close>

text \<open>
  Line 62: \<^verbatim>\<open>is_grafana_datasource = not (datasource.get("id") or datasource.get("uid"))\<close>.
\<close>

definition is_grafana_datasource :: "datasource \<Rightarrow> bool" where
  "is_grafana_datasource datasource =
     (\<not> truthy (py_or (dict_get datasource ''id'') (dict_get datasource ''uid'')))"

text \<open>
  Lines 87 to 94, the end of the loop body: a datasource with no contact point is appended
  to \<^verbatim>\<open>datasources_to_create\<close>.
\<close>

definition append_if_failed ::
  "'cp option \<Rightarrow> datasource \<Rightarrow> datasource list \<Rightarrow> datasource list" where
  "append_if_failed contact_point datasource datasources_to_create =
     (if contact_point = None then datasources_to_create @ [datasource]
      else datasources_to_create)"

text \<open>
  Lines 61 to 94, one iteration of the loop. The \<^verbatim>\<open>continue\<close> of the 400 branch
  returns the list unchanged; a missing config with any other status leaves
  \<^verbatim>\<open>contact_point\<close> at \<^verbatim>\<open>None\<close> and falls through to the append. Of the values
  above only the integer 404 compares equal to 404 in Python, and only 400 to 400, so the
  two comparisons of the status code are equalities of values. Building the
  \<^verbatim>\<open>GrafanaAPIClient\<close> (lines 54 to 57) sends nothing; the client is used through the
  dispatcher only.
\<close>

definition loop_body ::
  "('w, 'cfg, 'cp) env \<Rightarrow> alert_receive_channel \<Rightarrow> datasource \<Rightarrow> datasource list \<Rightarrow> 'w state
     \<Rightarrow> datasource list \<times> 'w state" where
  "loop_body e arc datasource datasources_to_create s =
     (let g = is_grafana_datasource datasource;
          ((config, response_info), s1) =
             do_alerting_config e arc g (dict_get datasource ''id'') (dict_get datasource ''uid'')
               Get_alerting_config s
      in case config of
           None \<Rightarrow>
             if dict_get response_info ''status_code'' = PyInt HTTP_404_NOT_FOUND then
               (let (ignored, s2) =
                      do_alerting_config e arc g (dict_get datasource ''id'')
                        (dict_get datasource ''uid'') Get_alertmanager_status_with_config s1;
                    (contact_point, s3) = do_create_contact_point e arc datasource s2
                in (append_if_failed contact_point datasource datasources_to_create, s3))
             else if dict_get response_info ''status_code'' = PyInt HTTP_400_BAD_REQUEST then
               (datasources_to_create, s1)
             else
               (append_if_failed (None :: 'cp option) datasource datasources_to_create, s1)
         | Some c \<Rightarrow>
             (let (contact_point, s2) = do_create_contact_point e arc datasource s1
              in (append_if_failed contact_point datasource datasources_to_create, s2)))"

text \<open>Lines 59 to 94: the loop over \<^verbatim>\<open>datasource_list\<close>.\<close>

fun loop ::
  "('w, 'cfg, 'cp) env \<Rightarrow> alert_receive_channel \<Rightarrow> datasource list \<Rightarrow> datasource list \<Rightarrow> 'w state
     \<Rightarrow> datasource list \<times> 'w state" where
  "loop e arc [] datasources_to_create s = (datasources_to_create, s)"
| "loop e arc (datasource # rest) datasources_to_create s =
     (let (acc, s1) = loop_body e arc datasource datasources_to_create s
      in loop e arc rest acc s1)"

text \<open>
  Lines 32 to 101. \<open>current_task_id\<close> is \<^verbatim>\<open>create_contact_points_for_datasource.request.id\<close>,
  the id Celery gave this invocation; it is \<^verbatim>\<open>None\<close> when the function is called outside a
  worker.
\<close>

definition create_contact_points_for_datasource ::
  "('w, 'cfg, 'cp) env \<Rightarrow> task_id option \<Rightarrow> int \<Rightarrow> datasource list \<Rightarrow> 'w state
     \<Rightarrow> 'w state" where
  "create_contact_points_for_datasource e current_task_id alert_receive_channel_id datasource_list s =
     (let cache_key = get_cache_key_create_contact_points_for_datasource alert_receive_channel_id;
          (cached_task_id, s1) = do_cache_get e cache_key s
      in if cached_task_id \<noteq> None \<and> current_task_id \<noteq> cached_task_id then s1
         else
           (let (found, s2) = do_objects_filter_first e alert_receive_channel_id s1
            in case found of
                 None \<Rightarrow> s2
               | Some arc \<Rightarrow>
                   (let (datasources_to_create, s3) = loop e arc datasource_list [] s2
                    in if datasources_to_create \<noteq> [] then
                         schedule_create_contact_points_for_datasource e alert_receive_channel_id
                           datasources_to_create s3
                       else
                         do_save e (arc\<lparr>is_finished_alerting_setup := True\<rparr>)
                           [''is_finished_alerting_setup''] s3)))"

subsection \<open>Reading the call log\<close>

text \<open>The calls made between two states of one run.\<close>

definition calls_since :: "'w state \<Rightarrow> 'w state \<Rightarrow> event list" where
  "calls_since s s' = drop (length (calls s)) (calls s')"

text \<open>The arguments of the \<^verbatim>\<open>apply_async\<close> calls in a log: one entry per reschedule.\<close>

fun scheduled :: "event list \<Rightarrow> (int \<times> datasource list) list" where
  "scheduled [] = []"
| "scheduled (Apply_async i ds countdown # evs) = (i, ds) # scheduled evs"
| "scheduled (ev # evs) = scheduled evs"

text \<open>The objects written by \<^verbatim>\<open>save\<close> in a log, each with its \<^verbatim>\<open>update_fields\<close>.\<close>

fun saved :: "event list \<Rightarrow> (alert_receive_channel \<times> string list) list" where
  "saved [] = []"
| "saved (Save arc update_fields # evs) = (arc, update_fields) # saved evs"
| "saved (ev # evs) = saved evs"

text \<open>The datasources for which \<^verbatim>\<open>create_contact_point\<close> was called in a log.\<close>

fun created :: "event list \<Rightarrow> datasource list" where
  "created [] = []"
| "created (Create_contact_point arc d # evs) = d # created evs"
| "created (ev # evs) = created evs"

text \<open>
  The calls the loop may make for a datasource list: dispatcher calls and contact-point
  creations for members of the list, all on the integration the loop runs for.
\<close>

fun loop_call :: "alert_receive_channel \<Rightarrow> datasource list \<Rightarrow> event \<Rightarrow> bool" where
  "loop_call arc ds (Alerting_config a g i u m) = (a = arc)"
| "loop_call arc ds (Create_contact_point a d) = (a = arc \<and> d \<in> set ds)"
| "loop_call arc ds ev = False"

text \<open>
  Line 98 hands \<^verbatim>\<open>datasources_to_create\<close> to the scheduler, so the list a later round
  works on is the list the round before it left over. \<open>later_rounds\<close> follows that chain:
  each later round runs the loop on what is left, for the integration object and in the
  state it finds then.
\<close>

fun later_rounds ::
  "('w, 'cfg, 'cp) env \<Rightarrow> (alert_receive_channel \<times> 'w state) list \<Rightarrow> datasource list
     \<Rightarrow> datasource list" where
  "later_rounds e [] retry = retry"
| "later_rounds e ((arc, s) # rs) retry = later_rounds e rs (fst (loop e arc retry [] s))"

subsection \<open>An executable environment for concrete runs\<close>

text \<open>
  A small world to run the task in: the cache as a map, the integration table as a map,
  and a counter from which \<^verbatim>\<open>apply_async\<close> draws task ids. The answers of the alerting
  backend are given by two functions.
\<close>

record sim_world =
  sim_cache :: "string \<rightharpoonup> task_id"
  sim_table :: "int \<rightharpoonup> alert_receive_channel"
  sim_issued :: nat

definition sim_env ::
  "(pyval \<Rightarrow> pyval \<Rightarrow> unit option \<times> response_info) \<Rightarrow> (datasource \<Rightarrow> unit option)
     \<Rightarrow> (sim_world, unit, unit) env" where
  "sim_env config_of contact_point_of =
     \<lparr>cache_get = (\<lambda>k w. (sim_cache w k, w)),
      cache_set = (\<lambda>k v timeout w. w\<lparr>sim_cache := (sim_cache w)(k \<mapsto> v)\<rparr>),
      objects_filter_first = (\<lambda>i w. (sim_table w i, w)),
      alerting_config_with_respect_to_grafana_version =
        (\<lambda>arc g i u m w.
           (case m of Get_alerting_config \<Rightarrow> config_of i u
            | Get_alertmanager_status_with_config \<Rightarrow> (None, Map.empty), w)),
      create_contact_point = (\<lambda>arc d w. (contact_point_of d, w)),
      apply_async =
        (\<lambda>i ds countdown w.
           (''task-'' @ str_nat (sim_issued w), w\<lparr>sim_issued := Suc (sim_issued w)\<rparr>)),
      save = (\<lambda>arc update_fields w. w\<lparr>sim_table := (sim_table w)(pk arc \<mapsto> arc)\<rparr>)\<rparr>"

text \<open>
  Six datasources: \<open>ds_a\<close> has a config and its contact point is created; \<open>ds_10\<close>
  and \<open>ds_11\<close> answer 404 to the config fetch, and the contact point is created for the
  first and not for the second; \<open>ds_b\<close> answers 400; \<open>ds_c\<close> has a config but its
  contact point is not created; \<open>ds_d\<close> answers 500.
\<close>

definition ds_a :: datasource where
  "ds_a = [''uid'' \<mapsto> PyStr ''ds-a'']"

definition ds_b :: datasource where
  "ds_b = [''uid'' \<mapsto> PyStr ''ds-b'']"

definition ds_c :: datasource where
  "ds_c = [''uid'' \<mapsto> PyStr ''ds-c'']"

definition ds_d :: datasource where
  "ds_d = [''uid'' \<mapsto> PyStr ''ds-d'']"

definition ds_10 :: datasource where
  "ds_10 = [''id'' \<mapsto> PyInt 10]"

definition ds_11 :: datasource where
  "ds_11 = [''id'' \<mapsto> PyInt 11]"

definition scenario_config :: "pyval \<Rightarrow> pyval \<Rightarrow> unit option \<times> response_info" where
  "scenario_config i u =
     (if u = PyStr ''ds-a'' \<or> u = PyStr ''ds-c'' then (Some (), Map.empty)
      else if i = PyInt 10 \<or> i = PyInt 11 then (None, [''status_code'' \<mapsto> PyInt 404])
      else if u = PyStr ''ds-b'' then (None, [''status_code'' \<mapsto> PyInt 400])
      else (None, [''status_code'' \<mapsto> PyInt 500]))"

definition scenario_contact_point :: "datasource \<Rightarrow> unit option" where
  "scenario_contact_point d =
     (if dict_get d ''uid'' = PyStr ''ds-c'' \<or> dict_get d ''id'' = PyInt 11 then None
      else Some ())"

definition scenario_env :: "(sim_world, unit, unit) env" where
  "scenario_env = sim_env scenario_config scenario_contact_point"

definition arc42 :: alert_receive_channel where
  "arc42 = \<lparr>pk = 42, grafana_url = ''http://grafana.example'', api_token = ''secret'',
            is_finished_alerting_setup = False\<rparr>"

text \<open>Integration 42 exists, nothing is cached, no task has been issued, nothing is logged.\<close>

definition sim0 :: "sim_world state" where
  "sim0 = \<lparr>world = \<lparr>sim_cache = Map.empty, sim_table = [42 \<mapsto> arc42], sim_issued = 0\<rparr>,
           calls = []\<rparr>"

text \<open>The state after two schedule calls for integration 42, one after the other.\<close>

definition sim_twice :: "sim_world state" where
  "sim_twice =
     schedule_create_contact_points_for_datasource scenario_env 42 [ds_a, ds_10]
       (schedule_create_contact_points_for_datasource scenario_env 42 [ds_a, ds_10] sim0)"

section \<open>Properties\<close>

subsection \<open>Evaluating the concrete runs\<close>

lemmas scenario_eval =
  loop_body_def do_alerting_config_def do_create_contact_point_def append_if_failed_def
  is_grafana_datasource_def py_or_def dict_get_def scenario_env_def sim_env_def
  scenario_config_def scenario_contact_point_def HTTP_404_NOT_FOUND_def HTTP_400_BAD_REQUEST_def
  Let_def

lemma key42:
  "get_cache_key_create_contact_points_for_datasource 42
     = ''create_contact_points_for_datasource_42''"
  by (simp add: get_cache_key_create_contact_points_for_datasource_def CACHE_KEY_PREFIX_def
      str_int_def str_nat.simps digit_char_def)

lemma key7:
  "get_cache_key_create_contact_points_for_datasource 7
     = ''create_contact_points_for_datasource_7''"
  by (simp add: get_cache_key_create_contact_points_for_datasource_def CACHE_KEY_PREFIX_def
      str_int_def str_nat.simps digit_char_def)

lemma str_nat_0: "str_nat 0 = ''0''"
  by (simp add: str_nat.simps digit_char_def)

lemma str_nat_1: "str_nat (Suc 0) = ''1''"
  by (simp add: str_nat.simps digit_char_def)

lemma sim_twice_world:
  "world sim_twice =
     \<lparr>sim_cache = [''create_contact_points_for_datasource_42'' \<mapsto> ''task-1''],
      sim_table = [42 \<mapsto> arc42], sim_issued = 2\<rparr>"
  by (simp add: sim_twice_def key42 schedule_create_contact_points_for_datasource_def
      do_apply_async_def do_cache_set_def scenario_env_def sim_env_def sim0_def str_nat_0
      str_nat_1 Let_def numeral_2_eq_2)

lemma sim_twice_cache:
  "cache_get scenario_env (get_cache_key_create_contact_points_for_datasource 42) (world sim_twice)
     = (Some ''task-1'', world sim_twice)"
  by (simp add: sim_twice_world key42 scenario_env_def sim_env_def)

lemma sim_twice_lookup:
  "objects_filter_first scenario_env 42 (world sim_twice) = (Some arc42, world sim_twice)"
  by (simp add: sim_twice_world scenario_env_def sim_env_def)

lemma scenario_fetch:
  "alerting_config_with_respect_to_grafana_version scenario_env arc g i u Get_alerting_config w
     = (scenario_config i u, w)"
  by (simp add: scenario_env_def sim_env_def)

lemma scenario_init:
  "alerting_config_with_respect_to_grafana_version scenario_env arc g i u
     Get_alertmanager_status_with_config w = ((None, Map.empty), w)"
  by (simp add: scenario_env_def sim_env_def)

lemma scenario_create:
  "create_contact_point scenario_env arc d w = (scenario_contact_point d, w)"
  by (simp add: scenario_env_def sim_env_def)

lemma ds_neq:
  "ds_a \<noteq> ds_b" "ds_a \<noteq> ds_c" "ds_a \<noteq> ds_d" "ds_b \<noteq> ds_c" "ds_c \<noteq> ds_d"
  "ds_10 \<noteq> ds_c" "ds_11 \<noteq> ds_c"
  by (auto simp: ds_a_def ds_b_def ds_c_def ds_d_def ds_10_def ds_11_def dest: map_upd_eqD1
      fun_cong [where x = "''uid''"])

lemma run_a_10: "fst (loop scenario_env arc [ds_a, ds_10] [] s) = []"
  by (simp add: scenario_eval ds_a_def ds_10_def)

lemma run_a_c: "fst (loop scenario_env arc [ds_a, ds_c] [] s) = [ds_c]"
  by (simp add: scenario_eval ds_a_def ds_c_def)

lemma run_c_c: "fst (loop scenario_env arc [ds_c, ds_c] [] s) = [ds_c, ds_c]"
  by (simp add: scenario_eval ds_c_def)

subsection \<open>Reading a log that is a concatenation\<close>

lemma calls_since_append: "calls s' = calls s @ evs \<Longrightarrow> calls_since s s' = evs"
  by (simp add: calls_since_def)

lemma scheduled_append: "scheduled (xs @ ys) = scheduled xs @ scheduled ys"
  by (induction xs rule: scheduled.induct) auto

lemma saved_append: "saved (xs @ ys) = saved xs @ saved ys"
  by (induction xs rule: saved.induct) auto

lemma created_append: "created (xs @ ys) = created xs @ created ys"
  by (induction xs rule: created.induct) auto

lemma loop_call_mono: "loop_call arc ds ev \<Longrightarrow> set ds \<subseteq> set ds' \<Longrightarrow> loop_call arc ds' ev"
  by (cases ev) auto

lemma loop_calls_scheduled: "list_all (loop_call arc ds) evs \<Longrightarrow> scheduled evs = []"
  by (induction evs rule: scheduled.induct) auto

lemma loop_calls_saved: "list_all (loop_call arc ds) evs \<Longrightarrow> saved evs = []"
  by (induction evs rule: saved.induct) auto

lemma loop_calls_created: "list_all (loop_call arc ds) evs \<Longrightarrow> set (created evs) \<subseteq> set ds"
  by (induction evs rule: created.induct) auto

subsection \<open>Subsequences\<close>

lemma subseq_set: "subseq xs ys \<Longrightarrow> set xs \<subseteq> set ys"
  by (auto dest: list_emb_set)

lemma subseq_distinct: "subseq xs ys \<Longrightarrow> distinct ys \<Longrightarrow> distinct xs"
  by (induction rule: list_emb.induct) (auto dest: subseq_set)

subsection \<open>What one iteration and the whole loop leave behind\<close>

text \<open>An iteration leaves the list as it is or appends its datasource.\<close>

lemma loop_body_fst:
  "fst (loop_body e arc d acc s) = acc \<or> fst (loop_body e arc d acc s) = acc @ [d]"
  by (auto simp: loop_body_def append_if_failed_def Let_def split: prod.splits option.splits)

text \<open>An iteration only adds to the log, and only dispatcher and creation calls.\<close>

lemma loop_body_calls:
  "\<exists>evs. calls (snd (loop_body e arc d acc s)) = calls s @ evs \<and> list_all (loop_call arc [d]) evs"
  by (auto simp: loop_body_def do_alerting_config_def do_create_contact_point_def Let_def
      split: prod.splits option.splits)

lemma loop_fst:
  "\<exists>r. fst (loop e arc ds acc s) = acc @ r \<and> subseq r ds"
proof (induction ds arbitrary: acc s)
  case Nil
  then show ?case by simp
next
  case (Cons d ds)
  obtain a s1 where b: "loop_body e arc d acc s = (a, s1)"
    by (cases "loop_body e arc d acc s")
  from Cons.IH [of a s1] obtain r where r: "fst (loop e arc ds a s1) = a @ r" "subseq r ds"
    by blast
  from loop_body_fst [of e arc d acc s] b have "a = acc \<or> a = acc @ [d]" by simp
  then show ?case
  proof
    assume "a = acc"
    with b r show ?thesis by (auto intro: subseq_Cons')
  next
    assume "a = acc @ [d]"
    with b r show ?thesis by (auto intro!: exI [of _ "d # r"])
  qed
qed

lemma loop_set: "set (fst (loop e arc ds acc s)) \<subseteq> set acc \<union> set ds"
proof -
  obtain r where r: "fst (loop e arc ds acc s) = acc @ r" "subseq r ds"
    using loop_fst [of e arc ds acc s] by blast
  from r(2) have "set r \<subseteq> set ds" by (rule subseq_set)
  with r(1) show ?thesis by auto
qed

lemma loop_calls:
  "\<exists>evs. calls (snd (loop e arc ds acc s)) = calls s @ evs \<and> list_all (loop_call arc ds) evs"
proof (induction ds arbitrary: acc s)
  case Nil
  then show ?case by simp
next
  case (Cons d ds)
  obtain a s1 where b: "loop_body e arc d acc s = (a, s1)"
    by (cases "loop_body e arc d acc s")
  from loop_body_calls [of e arc d acc s] b obtain ev1
    where ev1: "calls s1 = calls s @ ev1" "list_all (loop_call arc [d]) ev1" by auto
  from Cons.IH [of a s1] obtain ev2
    where ev2: "calls (snd (loop e arc ds a s1)) = calls s1 @ ev2"
      "list_all (loop_call arc ds) ev2"
    by blast
  have "list_all (loop_call arc (d # ds)) ev1"
    using ev1(2) by (auto simp: list_all_iff intro: loop_call_mono)
  moreover have "list_all (loop_call arc (d # ds)) ev2"
    using ev2(2) by (auto simp: list_all_iff intro: loop_call_mono)
  ultimately show ?case using b ev1(1) ev2(1) by simp
qed

lemma loop_append:
  "loop e arc (xs @ ys) acc s = (case loop e arc xs acc s of (a, s1) \<Rightarrow> loop e arc ys a s1)"
  by (induction xs arbitrary: acc s) (auto split: prod.splits)

text \<open>Later rounds only ever work on what the round before left over.\<close>

lemma later_rounds_set: "set (later_rounds e rs retry) \<subseteq> set retry"
proof (induction rs arbitrary: retry)
  case Nil
  then show ?case by simp
next
  case (Cons r rs)
  obtain arc s where r: "r = (arc, s)" by (cases r)
  have "set (later_rounds e rs (fst (loop e arc retry [] s))) \<subseteq> set (fst (loop e arc retry [] s))"
    by (rule Cons.IH)
  also have "\<dots> \<subseteq> set retry" using loop_set [of e arc retry "[]" s] by simp
  finally show ?case using r by simp
qed

subsection \<open>Fencing and the integration lookup\<close>

text \<open>
  C1. When the cache holds a task id for the integration and it is not the id of this
  invocation, the worker returns at once: the state it leaves is the state after the cache
  read, and the cache read is the only call in the log. There is no integration lookup, no
  call to the alerting backend, no write and no reschedule.
\<close>

theorem superseded_attempt_makes_no_call:
  assumes "cache_get e (get_cache_key_create_contact_points_for_datasource alert_receive_channel_id)
             (world s) = (Some cached_task_id, w)"
      and "current_task_id \<noteq> Some cached_task_id"
  shows "create_contact_points_for_datasource e current_task_id alert_receive_channel_id
           datasource_list s =
         \<lparr>world = w,
          calls = calls s @
            [Cache_get (get_cache_key_create_contact_points_for_datasource alert_receive_channel_id)]\<rparr>"
  using assms by (auto simp: create_contact_points_for_datasource_def do_cache_get_def Let_def)

text \<open>
  After two schedule calls for integration 42 the cache holds the second task's id; the
  first task, once it runs, only reads the cache.
\<close>

theorem superseded_attempt_makes_no_call_witness:
  "cache_get scenario_env (get_cache_key_create_contact_points_for_datasource 42) (world sim_twice)
     = (Some ''task-1'', world sim_twice)
   \<and> Some ''task-0'' \<noteq> Some ''task-1''
   \<and> create_contact_points_for_datasource scenario_env (Some ''task-0'') 42 [ds_a, ds_10] sim_twice
     = \<lparr>world = world sim_twice,
        calls = calls sim_twice @ [Cache_get (get_cache_key_create_contact_points_for_datasource 42)]\<rparr>"
proof -
  have n: "Some ''task-0'' \<noteq> Some ''task-1''" by simp
  from superseded_attempt_makes_no_call [OF sim_twice_cache n, of "[ds_a, ds_10]"] sim_twice_cache n
  show ?thesis by blast
qed

text \<open>
  C6. When the invocation passes the fencing check (nothing cached, or its own id cached)
  and the lookup finds no integration, the worker returns after the lookup: the log holds
  the cache read and the lookup and nothing else, so there is no call to the alerting
  backend, no \<^verbatim>\<open>save\<close> and no reschedule.
\<close>

theorem missing_integration_makes_no_call:
  assumes "cache_get e (get_cache_key_create_contact_points_for_datasource alert_receive_channel_id)
             (world s) = (cached_task_id, w1)"
      and "cached_task_id = None \<or> cached_task_id = current_task_id"
      and "objects_filter_first e alert_receive_channel_id w1 = (None, w2)"
  shows "create_contact_points_for_datasource e current_task_id alert_receive_channel_id
           datasource_list s =
         \<lparr>world = w2,
          calls = calls s @
            [Cache_get (get_cache_key_create_contact_points_for_datasource alert_receive_channel_id),
             Objects_filter_first alert_receive_channel_id]\<rparr>"
  using assms
  by (auto simp: create_contact_points_for_datasource_def do_cache_get_def
      do_objects_filter_first_def Let_def)

text \<open>Integration 7 is not in the table.\<close>

theorem missing_integration_makes_no_call_witness:
  "create_contact_points_for_datasource scenario_env (Some ''task-0'') 7 [ds_a, ds_10] sim0 =
     \<lparr>world = world sim0,
      calls = [Cache_get ''create_contact_points_for_datasource_7'', Objects_filter_first 7]\<rparr>"
proof -
  have c: "cache_get scenario_env (get_cache_key_create_contact_points_for_datasource 7)
      (world sim0) = (None, world sim0)"
    by (simp add: scenario_env_def sim_env_def sim0_def)
  have own: "(None :: task_id option) = None \<or> None = Some ''task-0''" by simp
  have l: "objects_filter_first scenario_env 7 (world sim0) = (None, world sim0)"
    by (simp add: scenario_env_def sim_env_def sim0_def)
  have "calls sim0 = []" by (simp add: sim0_def)
  with missing_integration_makes_no_call [OF c own l, of "[ds_a, ds_10]"]
  show ?thesis by (simp add: key7)
qed

subsection \<open>The end of a round\<close>

text \<open>
  C2. An invocation that passes the fencing check and finds the integration ends in one of
  two ways, decided by the list the loop leaves. If the list is not empty, the worker ends
  with the scheduling task applied to that list: the log of the invocation has exactly one
  \<^verbatim>\<open>apply_async\<close>, for this integration and that list, and no \<^verbatim>\<open>save\<close>. If the list is
  empty, the worker ends with the \<^verbatim>\<open>save\<close> of the integration with
  \<^verbatim>\<open>is_finished_alerting_setup\<close> set, that field being the only update field: the log has
  exactly that one \<^verbatim>\<open>save\<close> and no \<^verbatim>\<open>apply_async\<close>.
\<close>

theorem convergence_decision:
  assumes "cache_get e (get_cache_key_create_contact_points_for_datasource alert_receive_channel_id)
             (world s) = (cached_task_id, w1)"
      and "cached_task_id = None \<or> cached_task_id = current_task_id"
      and "objects_filter_first e alert_receive_channel_id w1 = (Some arc, w2)"
      and "loop e arc datasource_list []
             \<lparr>world = w2,
              calls = calls s @
                [Cache_get (get_cache_key_create_contact_points_for_datasource alert_receive_channel_id),
                 Objects_filter_first alert_receive_channel_id]\<rparr>
           = (datasources_to_create, s3)"
  shows "create_contact_points_for_datasource e current_task_id alert_receive_channel_id
           datasource_list s
         = (if datasources_to_create \<noteq> [] then
              schedule_create_contact_points_for_datasource e alert_receive_channel_id
                datasources_to_create s3
            else do_save e (arc\<lparr>is_finished_alerting_setup := True\<rparr>)
                   [''is_finished_alerting_setup''] s3)
       \<and> scheduled (calls_since s
           (create_contact_points_for_datasource e current_task_id alert_receive_channel_id
              datasource_list s))
         = (if datasources_to_create \<noteq> [] then [(alert_receive_channel_id, datasources_to_create)]
            else [])
       \<and> saved (calls_since s
           (create_contact_points_for_datasource e current_task_id alert_receive_channel_id
              datasource_list s))
         = (if datasources_to_create \<noteq> [] then []
            else [(arc\<lparr>is_finished_alerting_setup := True\<rparr>, [''is_finished_alerting_setup''])])"
proof -
  let ?key = "get_cache_key_create_contact_points_for_datasource alert_receive_channel_id"
  let ?pre = "[Cache_get ?key, Objects_filter_first alert_receive_channel_id]"
  let ?s2 = "\<lparr>world = w2, calls = calls s @ ?pre\<rparr>"
  let ?done = "Save (arc\<lparr>is_finished_alerting_setup := True\<rparr>) [''is_finished_alerting_setup'']"
  let ?fin = "create_contact_points_for_datasource e current_task_id alert_receive_channel_id
                datasource_list s"
  obtain evs where evs: "calls s3 = calls ?s2 @ evs" "list_all (loop_call arc datasource_list) evs"
    using loop_calls [of e arc datasource_list "[]" ?s2] assms(4) by auto
  have sch0: "scheduled evs = []" using evs(2) by (rule loop_calls_scheduled)
  have sav0: "saved evs = []" using evs(2) by (rule loop_calls_saved)
  have fin: "?fin =
      (if datasources_to_create \<noteq> [] then
         schedule_create_contact_points_for_datasource e alert_receive_channel_id
           datasources_to_create s3
       else do_save e (arc\<lparr>is_finished_alerting_setup := True\<rparr>)
              [''is_finished_alerting_setup''] s3)"
    using assms
    by (auto simp: create_contact_points_for_datasource_def do_cache_get_def
        do_objects_filter_first_def Let_def)
  have counts: "scheduled (calls_since s ?fin)
        = (if datasources_to_create \<noteq> [] then [(alert_receive_channel_id, datasources_to_create)]
           else [])
      \<and> saved (calls_since s ?fin)
        = (if datasources_to_create \<noteq> [] then []
           else [(arc\<lparr>is_finished_alerting_setup := True\<rparr>, [''is_finished_alerting_setup''])])"
  proof (cases "datasources_to_create = []")
    case True
    with fin evs(1) have "calls ?fin = calls s @ (?pre @ evs @ [?done])"
      by (simp add: do_save_def)
    then have "calls_since s ?fin = ?pre @ evs @ [?done]"
      by (rule calls_since_append)
    with True sch0 sav0 show ?thesis by (simp add: scheduled_append saved_append)
  next
    case False
    obtain task w4 where t: "apply_async e alert_receive_channel_id datasources_to_create
        START_TASK_DELAY (world s3) = (task, w4)"
      by (cases "apply_async e alert_receive_channel_id datasources_to_create
        START_TASK_DELAY (world s3)")
    with False fin evs(1) have "calls ?fin = calls s @ (?pre @ evs @
        [Apply_async alert_receive_channel_id datasources_to_create START_TASK_DELAY,
         Cache_set ?key task CACHE_LIFETIME])"
      by (simp add: schedule_create_contact_points_for_datasource_def do_apply_async_def
          do_cache_set_def Let_def)
    then have "calls_since s ?fin = ?pre @ evs @
        [Apply_async alert_receive_channel_id datasources_to_create START_TASK_DELAY,
         Cache_set ?key task CACHE_LIFETIME]"
      by (rule calls_since_append)
    with False sch0 sav0 show ?thesis by (simp add: scheduled_append saved_append)
  qed
  from fin counts show ?thesis by (rule conjI)
qed

text \<open>
  The current task finds a config for \<open>ds_a\<close>, initializes and creates for \<open>ds_10\<close>, and
  writes the flag; with \<open>ds_c\<close> in place of \<open>ds_10\<close> it reschedules \<open>ds_c\<close> alone.
\<close>

theorem convergence_decision_witness:
  "scheduled (calls_since sim_twice
     (create_contact_points_for_datasource scenario_env (Some ''task-1'') 42 [ds_a, ds_10] sim_twice)) = []
   \<and> saved (calls_since sim_twice
     (create_contact_points_for_datasource scenario_env (Some ''task-1'') 42 [ds_a, ds_10] sim_twice))
     = [(arc42\<lparr>is_finished_alerting_setup := True\<rparr>, [''is_finished_alerting_setup''])]
   \<and> scheduled (calls_since sim_twice
     (create_contact_points_for_datasource scenario_env (Some ''task-1'') 42 [ds_a, ds_c] sim_twice))
     = [(42, [ds_c])]
   \<and> saved (calls_since sim_twice
     (create_contact_points_for_datasource scenario_env (Some ''task-1'') 42 [ds_a, ds_c] sim_twice)) = []"
proof -
  let ?s2 = "\<lparr>world = world sim_twice,
              calls = calls sim_twice @
                [Cache_get (get_cache_key_create_contact_points_for_datasource 42),
                 Objects_filter_first 42]\<rparr>"
  have own: "Some ''task-1'' = None \<or> Some ''task-1'' = Some ''task-1''" by simp
  have l1: "loop scenario_env arc42 [ds_a, ds_10] [] ?s2
      = (fst (loop scenario_env arc42 [ds_a, ds_10] [] ?s2),
         snd (loop scenario_env arc42 [ds_a, ds_10] [] ?s2))" by simp
  have l2: "loop scenario_env arc42 [ds_a, ds_c] [] ?s2
      = (fst (loop scenario_env arc42 [ds_a, ds_c] [] ?s2),
         snd (loop scenario_env arc42 [ds_a, ds_c] [] ?s2))" by simp
  from convergence_decision [OF sim_twice_cache own sim_twice_lookup l1, unfolded run_a_10,
      THEN conjunct2]
    convergence_decision [OF sim_twice_cache own sim_twice_lookup l2, unfolded run_a_c,
      THEN conjunct2]
  show ?thesis by simp
qed

subsection \<open>One datasource\<close>

text \<open>
  C3. Take the entry \<open>d\<close> of the input list \<open>pre @ d # post\<close>, reached in state \<open>s\<close> with
  the list \<open>acc\<close> after the entries before it. When its config fetch returns no config and
  status 400, the iteration makes that fetch and no other call, and leaves the list as it
  was; the round ends as if the loop had gone from \<open>pre\<close> straight to \<open>post\<close>. So, when
  \<open>d\<close> has no second entry in the input, no contact-point creation is called for it in the
  round, and it is in the list of datasources to retry neither of this round nor of any
  later round of the chain.
\<close>

theorem bad_request_is_permanently_skipped:
  assumes "loop e arc pre [] s0 = (acc, s)"
      and "alerting_config_with_respect_to_grafana_version e arc (is_grafana_datasource d)
             (dict_get d ''id'') (dict_get d ''uid'') Get_alerting_config (world s)
           = ((None, response_info), w1)"
      and "dict_get response_info ''status_code'' = PyInt HTTP_400_BAD_REQUEST"
  shows "loop_body e arc d acc s =
           (acc,
            \<lparr>world = w1,
             calls = calls s @
               [Alerting_config arc (is_grafana_datasource d) (dict_get d ''id'') (dict_get d ''uid'')
                  Get_alerting_config]\<rparr>)
         \<and> loop e arc (pre @ d # post) [] s0 =
             loop e arc post acc
               \<lparr>world = w1,
                calls = calls s @
                  [Alerting_config arc (is_grafana_datasource d) (dict_get d ''id'')
                     (dict_get d ''uid'') Get_alerting_config]\<rparr>
         \<and> (d \<notin> set pre \<and> d \<notin> set post \<longrightarrow>
              d \<notin> set (created (calls_since s0 (snd (loop e arc (pre @ d # post) [] s0))))
              \<and> d \<notin> set (later_rounds e rs (fst (loop e arc (pre @ d # post) [] s0))))"
proof -
  let ?ev = "Alerting_config arc (is_grafana_datasource d) (dict_get d ''id'') (dict_get d ''uid'')
               Get_alerting_config"
  let ?s1 = "\<lparr>world = w1, calls = calls s @ [?ev]\<rparr>"
  let ?all = "pre @ d # post"
  have body: "loop_body e arc d acc s = (acc, ?s1)"
    using assms(2,3)
    by (simp add: loop_body_def do_alerting_config_def Let_def HTTP_404_NOT_FOUND_def
        HTTP_400_BAD_REQUEST_def)
  have whole: "loop e arc ?all [] s0 = loop e arc post acc ?s1"
    using assms(1) body by (simp add: loop_append)
  have once: "d \<notin> set (created (calls_since s0 (snd (loop e arc ?all [] s0))))
      \<and> d \<notin> set (later_rounds e rs (fst (loop e arc ?all [] s0)))"
    if n1: "d \<notin> set pre" and n2: "d \<notin> set post"
  proof -
    obtain ev1 where ev1: "calls s = calls s0 @ ev1" "list_all (loop_call arc pre) ev1"
      using loop_calls [of e arc pre "[]" s0] assms(1) by auto
    obtain ev2 where ev2: "calls (snd (loop e arc post acc ?s1)) = calls ?s1 @ ev2"
        "list_all (loop_call arc post) ev2"
      using loop_calls [of e arc post acc ?s1] by blast
    have "calls (snd (loop e arc ?all [] s0)) = calls s0 @ (ev1 @ [?ev] @ ev2)"
      using whole ev1(1) ev2(1) by simp
    then have "calls_since s0 (snd (loop e arc ?all [] s0)) = ev1 @ [?ev] @ ev2"
      by (rule calls_since_append)
    moreover have "set (created ev1) \<subseteq> set pre" using ev1(2) by (rule loop_calls_created)
    moreover have "set (created ev2) \<subseteq> set post" using ev2(2) by (rule loop_calls_created)
    ultimately have no_create: "d \<notin> set (created (calls_since s0 (snd (loop e arc ?all [] s0))))"
      using n1 n2 by (auto simp: created_append)
    have "set acc \<subseteq> set pre" using loop_set [of e arc pre "[]" s0] assms(1) by simp
    with n1 have "d \<notin> set acc" by blast
    moreover have "set (fst (loop e arc post acc ?s1)) \<subseteq> set acc \<union> set post" by (rule loop_set)
    ultimately have "d \<notin> set (fst (loop e arc ?all [] s0))"
      using whole n2 by auto
    moreover have "set (later_rounds e rs (fst (loop e arc ?all [] s0)))
        \<subseteq> set (fst (loop e arc ?all [] s0))"
      by (rule later_rounds_set)
    ultimately have "d \<notin> set (later_rounds e rs (fst (loop e arc ?all [] s0)))"
      by blast
    with no_create show ?thesis by (rule conjI)
  qed
  from body whole once show ?thesis by blast
qed

text \<open>
  In the round on \<open>[ds_a, ds_b, ds_c]\<close> the fetch for \<open>ds_b\<close> answers 400: the iteration
  makes that one call, no creation is called for \<open>ds_b\<close>, and \<open>ds_b\<close> is not in what the
  next round leaves over.
\<close>

theorem bad_request_is_permanently_skipped_witness:
  "loop_body scenario_env arc42 ds_b [] (snd (loop scenario_env arc42 [ds_a] [] sim0)) =
     ([],
      \<lparr>world = world (snd (loop scenario_env arc42 [ds_a] [] sim0)),
       calls = calls (snd (loop scenario_env arc42 [ds_a] [] sim0)) @
         [Alerting_config arc42 False PyNone (PyStr ''ds-b'') Get_alerting_config]\<rparr>)
   \<and> ds_b \<notin> set (created (calls_since sim0
         (snd (loop scenario_env arc42 ([ds_a] @ ds_b # [ds_c]) [] sim0))))
   \<and> ds_b \<notin> set (later_rounds scenario_env [(arc42, sim0)]
         (fst (loop scenario_env arc42 ([ds_a] @ ds_b # [ds_c]) [] sim0)))"
proof -
  let ?s = "snd (loop scenario_env arc42 [ds_a] [] sim0)"
  have pre: "loop scenario_env arc42 [ds_a] [] sim0 = ([], ?s)"
    by (simp add: scenario_eval ds_a_def)
  have fetch: "alerting_config_with_respect_to_grafana_version scenario_env arc42
       (is_grafana_datasource ds_b) (dict_get ds_b ''id'') (dict_get ds_b ''uid'')
       Get_alerting_config (world ?s)
     = ((None, [''status_code'' \<mapsto> PyInt 400]), world ?s)"
    by (simp add: scenario_fetch scenario_config_def dict_get_def ds_b_def)
  have code: "dict_get [''status_code'' \<mapsto> PyInt 400] ''status_code'' = PyInt HTTP_400_BAD_REQUEST"
    by (simp add: dict_get_def HTTP_400_BAD_REQUEST_def)
  have n: "ds_b \<notin> set [ds_a] \<and> ds_b \<notin> set [ds_c]" using ds_neq by simp
  have args: "is_grafana_datasource ds_b = False" "dict_get ds_b ''id'' = PyNone"
      "dict_get ds_b ''uid'' = PyStr ''ds-b''"
    by (simp_all add: is_grafana_datasource_def py_or_def dict_get_def ds_b_def)
  from bad_request_is_permanently_skipped [OF pre fetch code, of "[ds_c]" "[(arc42, sim0)]",
      unfolded args] n
  show ?thesis by blast
qed

text \<open>
  C4. When the config fetch for \<open>d\<close> returns no config and status 404, the iteration calls
  the dispatcher a second time with \<^verbatim>\<open>get_alertmanager_status_with_config\<close>, then calls
  \<^verbatim>\<open>create_contact_point\<close> for \<open>d\<close>, and makes no other call; it appends \<open>d\<close> to the list of
  datasources to retry exactly when the creation returns no contact point. So, for a \<open>d\<close>
  that is neither in the list so far nor among the entries still to come, \<open>d\<close> is in the
  list the round ends with exactly when the creation returned no contact point.
\<close>

theorem not_found_initializes_then_creates:
  assumes "alerting_config_with_respect_to_grafana_version e arc (is_grafana_datasource d)
             (dict_get d ''id'') (dict_get d ''uid'') Get_alerting_config (world s)
           = ((None, response_info), w1)"
      and "dict_get response_info ''status_code'' = PyInt HTTP_404_NOT_FOUND"
      and "alerting_config_with_respect_to_grafana_version e arc (is_grafana_datasource d)
             (dict_get d ''id'') (dict_get d ''uid'') Get_alertmanager_status_with_config w1
           = (ignored, w2)"
      and "create_contact_point e arc d w2 = (contact_point, w3)"
  shows "loop_body e arc d acc s =
           (if contact_point = None then acc @ [d] else acc,
            \<lparr>world = w3,
             calls = calls s @
               [Alerting_config arc (is_grafana_datasource d) (dict_get d ''id'') (dict_get d ''uid'')
                  Get_alerting_config,
                Alerting_config arc (is_grafana_datasource d) (dict_get d ''id'') (dict_get d ''uid'')
                  Get_alertmanager_status_with_config,
                Create_contact_point arc d]\<rparr>)
         \<and> (d \<notin> set acc \<and> d \<notin> set rest \<longrightarrow>
              (d \<in> set (fst (loop e arc (d # rest) acc s))) = (contact_point = None))"
proof -
  let ?s3 = "\<lparr>world = w3,
             calls = calls s @
               [Alerting_config arc (is_grafana_datasource d) (dict_get d ''id'') (dict_get d ''uid'')
                  Get_alerting_config,
                Alerting_config arc (is_grafana_datasource d) (dict_get d ''id'') (dict_get d ''uid'')
                  Get_alertmanager_status_with_config,
                Create_contact_point arc d]\<rparr>"
  let ?acc = "if contact_point = None then acc @ [d] else acc"
  have body: "loop_body e arc d acc s = (?acc, ?s3)"
    using assms
    by (simp add: loop_body_def do_alerting_config_def do_create_contact_point_def
        append_if_failed_def Let_def)
  have once: "(d \<in> set (fst (loop e arc (d # rest) acc s))) = (contact_point = None)"
    if n1: "d \<notin> set acc" and n2: "d \<notin> set rest"
  proof -
    obtain r where r: "fst (loop e arc rest ?acc ?s3) = ?acc @ r" "subseq r rest"
      using loop_fst [of e arc rest ?acc ?s3] by blast
    from r(2) have "set r \<subseteq> set rest" by (rule subseq_set)
    with n2 have "d \<notin> set r" by blast
    with r(1) n1 body show ?thesis by auto
  qed
  from body once show ?thesis by blast
qed

text \<open>
  Both \<open>ds_10\<close> and \<open>ds_11\<close> answer 404. The contact point of \<open>ds_10\<close> is created and it is
  not retried; that of \<open>ds_11\<close> is not and it is retried.
\<close>

theorem not_found_initializes_then_creates_witness:
  "loop_body scenario_env arc42 ds_10 [] sim0 =
     ([],
      \<lparr>world = world sim0,
       calls = calls sim0 @
         [Alerting_config arc42 False (PyInt 10) PyNone Get_alerting_config,
          Alerting_config arc42 False (PyInt 10) PyNone Get_alertmanager_status_with_config,
          Create_contact_point arc42 ds_10]\<rparr>)
   \<and> ds_10 \<notin> set (fst (loop scenario_env arc42 (ds_10 # [ds_c]) [] sim0))
   \<and> loop_body scenario_env arc42 ds_11 [] sim0 =
     ([ds_11],
      \<lparr>world = world sim0,
       calls = calls sim0 @
         [Alerting_config arc42 False (PyInt 11) PyNone Get_alerting_config,
          Alerting_config arc42 False (PyInt 11) PyNone Get_alertmanager_status_with_config,
          Create_contact_point arc42 ds_11]\<rparr>)
   \<and> ds_11 \<in> set (fst (loop scenario_env arc42 (ds_11 # [ds_c]) [] sim0))"
proof -
  have code: "dict_get [''status_code'' \<mapsto> PyInt 404] ''status_code'' = PyInt HTTP_404_NOT_FOUND"
    by (simp add: dict_get_def HTTP_404_NOT_FOUND_def)
  have args10: "is_grafana_datasource ds_10 = False" "dict_get ds_10 ''id'' = PyInt 10"
      "dict_get ds_10 ''uid'' = PyNone"
    by (simp_all add: is_grafana_datasource_def py_or_def dict_get_def ds_10_def)
  have args11: "is_grafana_datasource ds_11 = False" "dict_get ds_11 ''id'' = PyInt 11"
      "dict_get ds_11 ''uid'' = PyNone"
    by (simp_all add: is_grafana_datasource_def py_or_def dict_get_def ds_11_def)
  have fetch10: "alerting_config_with_respect_to_grafana_version scenario_env arc42
       (is_grafana_datasource ds_10) (dict_get ds_10 ''id'') (dict_get ds_10 ''uid'')
       Get_alerting_config (world sim0)
     = ((None, [''status_code'' \<mapsto> PyInt 404]), world sim0)"
    by (simp add: scenario_fetch scenario_config_def args10)
  have fetch11: "alerting_config_with_respect_to_grafana_version scenario_env arc42
       (is_grafana_datasource ds_11) (dict_get ds_11 ''id'') (dict_get ds_11 ''uid'')
       Get_alerting_config (world sim0)
     = ((None, [''status_code'' \<mapsto> PyInt 404]), world sim0)"
    by (simp add: scenario_fetch scenario_config_def args11)
  have cp10: "create_contact_point scenario_env arc42 ds_10 (world sim0) = (Some (), world sim0)"
    by (simp add: scenario_create scenario_contact_point_def args10)
  have cp11: "create_contact_point scenario_env arc42 ds_11 (world sim0) = (None, world sim0)"
    by (simp add: scenario_create scenario_contact_point_def args11)
  have n10: "ds_10 \<notin> set [] \<and> ds_10 \<notin> set [ds_c]" using ds_neq by simp
  have n11: "ds_11 \<notin> set [] \<and> ds_11 \<notin> set [ds_c]" using ds_neq by simp
  from not_found_initializes_then_creates [OF fetch10 code scenario_init cp10,
      of "[]" "[ds_c]", unfolded args10]
    not_found_initializes_then_creates [OF fetch11 code scenario_init cp11,
      of "[]" "[ds_c]", unfolded args11]
    n10 n11
  show ?thesis by (simp del: loop.simps)
qed

text \<open>
  C5. When the config fetch for \<open>d\<close> returns no config and a status that is neither 404
  nor 400, the iteration makes that fetch and no other call, so no contact-point creation
  is attempted, and it appends \<open>d\<close> to the list of datasources to retry; \<open>d\<close> is in the
  list the round ends with.
\<close>

theorem other_status_retries_without_creation:
  assumes "alerting_config_with_respect_to_grafana_version e arc (is_grafana_datasource d)
             (dict_get d ''id'') (dict_get d ''uid'') Get_alerting_config (world s)
           = ((None, response_info), w1)"
      and "dict_get response_info ''status_code'' \<noteq> PyInt HTTP_404_NOT_FOUND"
      and "dict_get response_info ''status_code'' \<noteq> PyInt HTTP_400_BAD_REQUEST"
  shows "loop_body e arc d acc s =
           (acc @ [d],
            \<lparr>world = w1,
             calls = calls s @
               [Alerting_config arc (is_grafana_datasource d) (dict_get d ''id'') (dict_get d ''uid'')
                  Get_alerting_config]\<rparr>)
         \<and> d \<in> set (fst (loop e arc (d # rest) acc s))"
proof -
  let ?s1 = "\<lparr>world = w1,
             calls = calls s @
               [Alerting_config arc (is_grafana_datasource d) (dict_get d ''id'') (dict_get d ''uid'')
                  Get_alerting_config]\<rparr>"
  have body: "loop_body e arc d acc s = (acc @ [d], ?s1)"
    using assms
    by (simp add: loop_body_def do_alerting_config_def append_if_failed_def Let_def)
  obtain r where "fst (loop e arc rest (acc @ [d]) ?s1) = (acc @ [d]) @ r"
    using loop_fst [of e arc rest "acc @ [d]" ?s1] by blast
  with body have "d \<in> set (fst (loop e arc (d # rest) acc s))" by simp
  with body show ?thesis by (rule conjI)
qed

text \<open>The fetch for \<open>ds_d\<close> answers 500.\<close>

theorem other_status_retries_without_creation_witness:
  "loop_body scenario_env arc42 ds_d [] sim0 =
     ([ds_d],
      \<lparr>world = world sim0,
       calls = calls sim0 @
         [Alerting_config arc42 False PyNone (PyStr ''ds-d'') Get_alerting_config]\<rparr>)
   \<and> ds_d \<in> set (fst (loop scenario_env arc42 (ds_d # [ds_a]) [] sim0))"
proof -
  have args: "is_grafana_datasource ds_d = False" "dict_get ds_d ''id'' = PyNone"
      "dict_get ds_d ''uid'' = PyStr ''ds-d''"
    by (simp_all add: is_grafana_datasource_def py_or_def dict_get_def ds_d_def)
  have fetch: "alerting_config_with_respect_to_grafana_version scenario_env arc42
       (is_grafana_datasource ds_d) (dict_get ds_d ''id'') (dict_get ds_d ''uid'')
       Get_alerting_config (world sim0)
     = ((None, [''status_code'' \<mapsto> PyInt 500]), world sim0)"
    by (simp add: scenario_fetch scenario_config_def args)
  have c1: "dict_get [''status_code'' \<mapsto> PyInt 500] ''status_code'' \<noteq> PyInt HTTP_404_NOT_FOUND"
    by (simp add: dict_get_def HTTP_404_NOT_FOUND_def)
  have c2: "dict_get [''status_code'' \<mapsto> PyInt 500] ''status_code'' \<noteq> PyInt HTTP_400_BAD_REQUEST"
    by (simp add: dict_get_def HTTP_400_BAD_REQUEST_def)
  from other_status_retries_without_creation [where acc = "[]" and rest = "[ds_a]",
      OF fetch c1 c2, unfolded args]
  show ?thesis by (simp del: loop.simps)
qed

text \<open>
  C8, as the code has it. A datasource is classified as the Grafana datasource exactly
  when neither its \<^verbatim>\<open>id\<close> nor its \<^verbatim>\<open>uid\<close> is truthy: each of the two keys is missing or
  holds \<^verbatim>\<open>None\<close>, \<^verbatim>\<open>False\<close>, \<^verbatim>\<open>0\<close> or the empty string. A datasource with both keys
  missing is the first case of this.
\<close>

theorem builtin_iff_id_and_uid_absent_or_falsy:
  "is_grafana_datasource d =
     (d ''id'' \<in> {None, Some PyNone, Some (PyBool False), Some (PyInt 0), Some (PyStr [])}
      \<and> d ''uid'' \<in> {None, Some PyNone, Some (PyBool False), Some (PyInt 0), Some (PyStr [])})"
proof -
  have t: "(\<not> truthy (dict_get d k)) =
      (d k \<in> {None, Some PyNone, Some (PyBool False), Some (PyInt 0), Some (PyStr [])})" for k
  proof (cases "d k")
    case None
    then show ?thesis by (simp add: dict_get_def)
  next
    case (Some v)
    then show ?thesis by (cases v) (auto simp: dict_get_def)
  qed
  show ?thesis
    unfolding is_grafana_datasource_def py_or_def using t [of "''id''"] t [of "''uid''"] by auto
qed

text \<open>
  The record \<^verbatim>\<open>{"id": 0}\<close> has an \<^verbatim>\<open>id\<close> and is classified as the Grafana datasource all
  the same: being classified so is not the same as having neither key.
\<close>

theorem builtin_with_id_present_counterexample:
  "is_grafana_datasource [''id'' \<mapsto> PyInt 0]
     \<noteq> ([''id'' \<mapsto> PyInt 0] ''id'' = None \<and> [''id'' \<mapsto> PyInt 0] ''uid'' = None)"
  by (simp add: is_grafana_datasource_def py_or_def dict_get_def)

subsection \<open>The list of datasources to retry\<close>

text \<open>
  C10. The list of datasources to retry that a round produces is a subsequence of the
  round's input list: its elements come from the input and keep the input's order.
\<close>

theorem retry_set_is_subsequence:
  "subseq (fst (loop e arc datasource_list [] s)) datasource_list"
  using loop_fst [of e arc datasource_list "[]" s] by auto

text \<open>
  C7, as the code has it. When the input list of a round has no duplicates, the list of
  datasources to retry has none.
\<close>

theorem retry_set_distinct_for_distinct_input:
  "distinct datasource_list \<Longrightarrow> distinct (fst (loop e arc datasource_list [] s))"
proof -
  assume d: "distinct datasource_list"
  obtain r where "fst (loop e arc datasource_list [] s) = r" "subseq r datasource_list"
    using loop_fst [of e arc datasource_list "[]" s] by auto
  with d show ?thesis by (auto dest: subseq_distinct)
qed

theorem retry_set_distinct_for_distinct_input_witness:
  "distinct [ds_a, ds_c, ds_d]
   \<and> distinct (fst (loop scenario_env arc42 [ds_a, ds_c, ds_d] [] sim0))"
proof -
  have d: "distinct [ds_a, ds_c, ds_d]" using ds_neq by simp
  from retry_set_distinct_for_distinct_input [OF d] d show ?thesis by blast
qed

text \<open>
  The loop does not compare entries: an input list with \<open>ds_c\<close> twice, whose contact point
  is not created either time, leaves \<open>ds_c\<close> twice in the list of datasources to retry.
\<close>

theorem retry_set_duplicates_counterexample:
  "\<not> distinct (fst (loop scenario_env arc42 [ds_c, ds_c] [] sim0))"
  by (subst run_c_c) simp

end
